theory Spec2Isabelle
  imports Complex_Main "HOL-Library.Signed_Division" "HOL-Library.Multiset"
begin

unbundle bit_operations_syntax

section \<open>Index arithmetic\<close>

text \<open>
  The kernels of \<^verbatim>\<open>shifts_kernels.h\<close> are templates over the index type \<^verbatim>\<open>idx_t\<close>
  (\<^verbatim>\<open>int64_t\<close> on the CPU path, \<^verbatim>\<open>int\<close> or \<^verbatim>\<open>int64_t\<close> on the CUDA path).
  Indices are modelled as \<^typ>\<open>int\<close>; the C++ operators \<^verbatim>\<open>/\<close> and \<^verbatim>\<open>%\<close> truncate
  towards zero and are \<open>sdiv\<close> and \<open>smod\<close>. The lemma \<open>infer_index_no_overflow\<close>
  below shows that no intermediate value of the index resolver leaves the range of the
  operands' type (the most negative index apart, whose magnitude \<^verbatim>\<open>ABS\<close> cannot
  represent), so the unbounded model agrees with the machine arithmetic there. The element
  offsets that the kernels compute from coordinates and strides are assumed to fit the
  index type, which the callers decide before the launch.
\<close>

datatype BIPadding = Zeros | Border | Periodic | Reflect | Symmetric

text \<open>\<^verbatim>\<open>mod(a, b)\<close>: \<^verbatim>\<open>(b + (a % b)) % b\<close>.\<close>

definition mod_idx :: "int \<Rightarrow> int \<Rightarrow> int" where
  "mod_idx a b = (b + (a smod b)) smod b"

text \<open>
  Modelled from the spec: the macro \<^verbatim>\<open>ABS\<close> comes from \<^verbatim>\<open>global_scope.h\<close>, which is
  not among the sources. The fold count of the spec needs the magnitude of the index, so
  \<^verbatim>\<open>ABS\<close> is the absolute value.
\<close>

definition ABS :: "int \<Rightarrow> int" where
  "ABS x = (if x < 0 then - x else x)"

text \<open>
  \<^verbatim>\<open>odd_seq\<close> of the Reflect and Symmetric cases, with the period \<open>p\<close>
  (\<^verbatim>\<open>len - 1\<close> and \<^verbatim>\<open>len\<close>): the cast \<^verbatim>\<open>(idx_t)(out_index<0)\<close> is \<open>of_bool\<close>,
  and the assignment to a \<^verbatim>\<open>bool\<close> tests the masked value against zero.
\<close>

definition odd_seq :: "int \<Rightarrow> int \<Rightarrow> bool" where
  "odd_seq out_index p =
     (((of_bool (out_index < 0) + (ABS out_index - of_bool (out_index < 0)) sdiv p) AND 1) \<noteq> 0)"

definition infer_index :: "int \<Rightarrow> int \<Rightarrow> BIPadding \<Rightarrow> int" where
  "infer_index index len padding_mode =
     (if index < len \<and> index \<ge> 0 then index
      else (case padding_mode of
          Zeros \<Rightarrow> - 1
        | Border \<Rightarrow> (if index \<ge> len then len - 1 else 0)
        | Periodic \<Rightarrow> mod_idx index len
        | Reflect \<Rightarrow>
            (if len = 1 then 0
             else (let out_index = mod_idx index (len - 1)
                   in if odd_seq index (len - 1) then len - 1 - out_index else out_index))
        | Symmetric \<Rightarrow>
            (let out_index = mod_idx index len
             in if odd_seq index len then len - 1 - out_index else out_index)))"

text \<open>
  \<open>fits M x\<close>: the value \<open>x\<close> is representable in the signed type whose range is
  \<open>[-M, M)\<close> (\<open>M = 2^31\<close> for \<^verbatim>\<open>int\<close>, \<open>M = 2^63\<close> for \<^verbatim>\<open>int64_t\<close>).
\<close>

definition fits :: "int \<Rightarrow> int \<Rightarrow> bool" where
  "fits M x = (- M \<le> x \<and> x < M)"

section \<open>Buffers and the sampler\<close>

text \<open>
  A tensor's storage is reached through a pointer and element offsets. A pointer is
  modelled by the function from the element offset to the scalar stored there;
  \<^verbatim>\<open>p + d\<close> is \<open>ptr_add p d\<close>, and a store through a pointer is a function update.
  The scalar type \<^verbatim>\<open>scalar_t\<close> is a type parameter of the model: the sampler only
  copies scalars, and arithmetic on them happens in the interpolation routines and in
  the accumulation of the shift gradient.
\<close>

type_synonym 'a buf = "int \<Rightarrow> 'a"

definition ptr_add :: "'a buf \<Rightarrow> int \<Rightarrow> 'a buf" where
  "ptr_add p d = (\<lambda>off. p (d + off))"

definition get_shifted_value ::
  "int \<Rightarrow> int \<Rightarrow> int \<Rightarrow> int \<Rightarrow> int \<Rightarrow> int \<Rightarrow> int \<Rightarrow> int \<Rightarrow> int \<Rightarrow> int \<Rightarrow> int \<Rightarrow>
   'a buf \<Rightarrow> 'a \<Rightarrow> BIPadding \<Rightarrow> 'a" where
  "get_shifted_value i_shifted sizeH strideH j_shifted sizeW strideW k_shifted sizeD strideD
     c strideC array zero_point padding_mode =
     (let tidx_i = infer_index i_shifted sizeH padding_mode;
          tidx_j = infer_index j_shifted sizeW padding_mode;
          tidx_k = infer_index k_shifted sizeD padding_mode
      in if tidx_i \<ge> 0 \<and> tidx_j \<ge> 0 \<and> tidx_k \<ge> 0
         then array (tidx_i * strideH + tidx_j * strideW + tidx_k * strideD + c * strideC)
         else zero_point)"

text \<open>
  \<^verbatim>\<open>get_shifted_values\<close> writes into the caller's array \<^verbatim>\<open>output_values\<close>; the model
  takes the array and returns it updated. Slots 0 and 1 are always written, slots 2 and 3
  only when \<^verbatim>\<open>sizeW > 1\<close>, slots 4 to 7 only when \<^verbatim>\<open>sizeD > 1\<close>.
\<close>

definition get_shifted_values ::
  "int \<Rightarrow> int \<Rightarrow> int \<Rightarrow> int \<Rightarrow> int \<Rightarrow> int \<Rightarrow> int \<Rightarrow> int \<Rightarrow> int \<Rightarrow> int \<Rightarrow> int \<Rightarrow>
   'a buf \<Rightarrow> 'a \<Rightarrow> BIPadding \<Rightarrow> 'a list \<Rightarrow> 'a list" where
  "get_shifted_values i_shifted sizeH strideH j_shifted sizeW strideW k_shifted sizeD strideD
     c strideC array zero_point padding_mode output_values =
     (let ov1 = output_values
            [0 := get_shifted_value i_shifted sizeH strideH j_shifted sizeW strideW
                    k_shifted sizeD strideD c strideC array zero_point padding_mode,
             1 := get_shifted_value (i_shifted + 1) sizeH strideH j_shifted sizeW strideW
                    k_shifted sizeD strideD c strideC array zero_point padding_mode];
          ov2 = (if sizeW > 1 then ov1
            [2 := get_shifted_value i_shifted sizeH strideH (j_shifted + 1) sizeW strideW
                    k_shifted sizeD strideD c strideC array zero_point padding_mode,
             3 := get_shifted_value (i_shifted + 1) sizeH strideH (j_shifted + 1) sizeW strideW
                    k_shifted sizeD strideD c strideC array zero_point padding_mode]
            else ov1)
      in if sizeD > 1 then ov2
            [4 := get_shifted_value i_shifted sizeH strideH j_shifted sizeW strideW
                    (k_shifted + 1) sizeD strideD c strideC array zero_point padding_mode,
             5 := get_shifted_value (i_shifted + 1) sizeH strideH j_shifted sizeW strideW
                    (k_shifted + 1) sizeD strideD c strideC array zero_point padding_mode,
             6 := get_shifted_value i_shifted sizeH strideH (j_shifted + 1) sizeW strideW
                    (k_shifted + 1) sizeD strideD c strideC array zero_point padding_mode,
             7 := get_shifted_value (i_shifted + 1) sizeH strideH (j_shifted + 1) sizeW strideW
                    (k_shifted + 1) sizeD strideD c strideC array zero_point padding_mode]
         else ov2)"

section \<open>Interpolation\<close>

text \<open>
  The routines \<^verbatim>\<open>interp1D\<close>, \<^verbatim>\<open>interp2D\<close>, \<^verbatim>\<open>interp3D\<close> and their partial derivatives
  are declared in \<^verbatim>\<open>interpolation.h\<close>, which is not among the sources. The kernels take
  them as a parameter: a record of the nine routines, with the argument order of their
  call sites.
\<close>

record 'a interpolation =
  interp1D :: "'a \<Rightarrow> 'a \<Rightarrow> 'a \<Rightarrow> 'a"
  interp1D_dx :: "'a \<Rightarrow> 'a \<Rightarrow> 'a"
  interp2D :: "'a \<Rightarrow> 'a \<Rightarrow> 'a \<Rightarrow> 'a \<Rightarrow> 'a \<Rightarrow> 'a \<Rightarrow> 'a"
  interp2D_dx :: "'a \<Rightarrow> 'a \<Rightarrow> 'a \<Rightarrow> 'a \<Rightarrow> 'a \<Rightarrow> 'a"
  interp2D_dy :: "'a \<Rightarrow> 'a \<Rightarrow> 'a \<Rightarrow> 'a \<Rightarrow> 'a \<Rightarrow> 'a"
  interp3D :: "'a \<Rightarrow> 'a \<Rightarrow> 'a \<Rightarrow> 'a \<Rightarrow> 'a \<Rightarrow> 'a \<Rightarrow> 'a \<Rightarrow> 'a \<Rightarrow> 'a \<Rightarrow> 'a \<Rightarrow> 'a \<Rightarrow> 'a"
  interp3D_dx :: "'a \<Rightarrow> 'a \<Rightarrow> 'a \<Rightarrow> 'a \<Rightarrow> 'a \<Rightarrow> 'a \<Rightarrow> 'a \<Rightarrow> 'a \<Rightarrow> 'a \<Rightarrow> 'a \<Rightarrow> 'a"
  interp3D_dy :: "'a \<Rightarrow> 'a \<Rightarrow> 'a \<Rightarrow> 'a \<Rightarrow> 'a \<Rightarrow> 'a \<Rightarrow> 'a \<Rightarrow> 'a \<Rightarrow> 'a \<Rightarrow> 'a \<Rightarrow> 'a"
  interp3D_dz :: "'a \<Rightarrow> 'a \<Rightarrow> 'a \<Rightarrow> 'a \<Rightarrow> 'a \<Rightarrow> 'a \<Rightarrow> 'a \<Rightarrow> 'a \<Rightarrow> 'a \<Rightarrow> 'a \<Rightarrow> 'a"

definition compute_interpolated ::
  "'a interpolation \<Rightarrow> 'a list \<Rightarrow> 'a \<Rightarrow> 'a \<Rightarrow> 'a \<Rightarrow> int \<Rightarrow> int \<Rightarrow> int \<Rightarrow> 'a" where
  "compute_interpolated I v diff_shiftH diff_shiftW diff_shiftD sizeH sizeW sizeD =
     (if sizeD > 1 then interp3D I (v ! 0) (v ! 1) (v ! 2) (v ! 3) (v ! 4) (v ! 5) (v ! 6) (v ! 7)
                          diff_shiftH diff_shiftW diff_shiftD
      else if sizeW > 1 then interp2D I (v ! 0) (v ! 1) (v ! 2) (v ! 3) diff_shiftH diff_shiftW
      else interp1D I (v ! 0) (v ! 1) diff_shiftH)"

definition compute_weight_gradients ::
  "'a interpolation \<Rightarrow> 'a list \<Rightarrow> 'a \<Rightarrow> 'a \<Rightarrow> 'a \<Rightarrow> int \<Rightarrow> int \<Rightarrow> int \<Rightarrow> 'a list \<Rightarrow> 'a list" where
  "compute_weight_gradients I v diff_shiftH diff_shiftW diff_shiftD sizeH sizeW sizeD output_grad =
     (if sizeD > 1 then output_grad
        [0 := interp3D_dx I (v ! 0) (v ! 1) (v ! 2) (v ! 3) (v ! 4) (v ! 5) (v ! 6) (v ! 7)
                diff_shiftW diff_shiftD,
         1 := interp3D_dy I (v ! 0) (v ! 1) (v ! 2) (v ! 3) (v ! 4) (v ! 5) (v ! 6) (v ! 7)
                diff_shiftH diff_shiftD,
         2 := interp3D_dz I (v ! 0) (v ! 1) (v ! 2) (v ! 3) (v ! 4) (v ! 5) (v ! 6) (v ! 7)
                diff_shiftH diff_shiftW]
      else if sizeW > 1 then output_grad
        [0 := interp2D_dx I (v ! 0) (v ! 1) (v ! 2) (v ! 3) diff_shiftW,
         1 := interp2D_dy I (v ! 0) (v ! 1) (v ! 2) (v ! 3) diff_shiftH]
      else if sizeH > 1 then output_grad [0 := interp1D_dx I (v ! 0) (v ! 1)]
      else output_grad)"

text \<open>
  Modelled from the spec: \<^verbatim>\<open>interpolation.h\<close> is missing. The spec describes the
  routines as the N-linear blend (linear, bilinear, trilinear) of the corner values, with
  the first axis low/high innermost, then the second, then the third axis, and their exact
  partial derivatives with respect to each fractional offset. This instance is used only
  to evaluate the kernels on concrete inputs.
\<close>

definition lerp :: "'a::comm_ring_1 \<Rightarrow> 'a \<Rightarrow> 'a \<Rightarrow> 'a" where
  "lerp v0 v1 x = v0 * (1 - x) + v1 * x"

definition linear_interpolation :: "'a::comm_ring_1 interpolation" where
  "linear_interpolation = \<lparr>
     interp1D = lerp,
     interp1D_dx = (\<lambda>v0 v1. v1 - v0),
     interp2D = (\<lambda>v0 v1 v2 v3 x y. lerp (lerp v0 v1 x) (lerp v2 v3 x) y),
     interp2D_dx = (\<lambda>v0 v1 v2 v3 y. lerp (v1 - v0) (v3 - v2) y),
     interp2D_dy = (\<lambda>v0 v1 v2 v3 x. lerp v2 v3 x - lerp v0 v1 x),
     interp3D = (\<lambda>v0 v1 v2 v3 v4 v5 v6 v7 x y z.
        lerp (lerp (lerp v0 v1 x) (lerp v2 v3 x) y) (lerp (lerp v4 v5 x) (lerp v6 v7 x) y) z),
     interp3D_dx = (\<lambda>v0 v1 v2 v3 v4 v5 v6 v7 y z.
        lerp (lerp (v1 - v0) (v3 - v2) y) (lerp (v5 - v4) (v7 - v6) y) z),
     interp3D_dy = (\<lambda>v0 v1 v2 v3 v4 v5 v6 v7 x z.
        lerp (lerp v2 v3 x - lerp v0 v1 x) (lerp v6 v7 x - lerp v4 v5 x) z),
     interp3D_dz = (\<lambda>v0 v1 v2 v3 v4 v5 v6 v7 x y.
        lerp (lerp v4 v5 x) (lerp v6 v7 x) y - lerp (lerp v0 v1 x) (lerp v2 v3 x) y) \<rparr>"

section \<open>The channel-major kernels\<close>

text \<open>
  Each kernel call handles one output coordinate. The forward kernel returns the output
  buffer with that element stored. Local arrays are lists; \<^verbatim>\<open>zp\<close> is the scalar \<open>0\<close>.
\<close>

definition shift_forward_kernel_nchwd ::
  "'a::zero interpolation \<Rightarrow> 'a buf \<Rightarrow> 'a buf \<Rightarrow> int buf \<Rightarrow> 'a buf \<Rightarrow>
   int \<Rightarrow> int \<Rightarrow> int \<Rightarrow> int \<Rightarrow> int \<Rightarrow> int \<Rightarrow> int \<Rightarrow> int \<Rightarrow>
   int \<Rightarrow> int \<Rightarrow> int \<Rightarrow> int \<Rightarrow> int \<Rightarrow> int \<Rightarrow> int \<Rightarrow> int \<Rightarrow> int \<Rightarrow> int \<Rightarrow>
   int \<Rightarrow> int \<Rightarrow> int \<Rightarrow> int \<Rightarrow> BIPadding \<Rightarrow> bool \<Rightarrow> 'a buf" where
  "shift_forward_kernel_nchwd I input output weights dweights n c i j k sizeH sizeW sizeD
     input_sN input_sC input_sH input_sW input_sD
     output_sN output_sC output_sH output_sW output_sD
     weights_sC weights_sS dweights_sC dweights_sS padding_mode active =
     (let input_NC = ptr_add input (n * input_sN + c * input_sC);
          output_NCHWD = n * output_sN + c * output_sC + i * output_sH + j * output_sW + k * output_sD;
          zp = 0;
          shifts0 = [weights (c * weights_sC), 0, 0];
          shifts1 = (if sizeW > 1 then shifts0 [1 := weights (c * weights_sC + weights_sS)] else shifts0);
          shifts = (if sizeD > 1 then shifts1 [2 := weights (c * weights_sC + 2 * weights_sS)] else shifts1);
          val =
            (if active then
               (let vals_array = get_shifted_values (i - shifts ! 0) sizeH input_sH
                                   (j - shifts ! 1) sizeW input_sW
                                   (k - shifts ! 2) sizeD input_sD
                                   0 0 input_NC zp padding_mode [zp, zp, zp, zp, zp, zp, zp, zp];
                    dshifts0 = [dweights (c * dweights_sC), zp, zp];
                    dshifts1 = (if sizeW > 1 then dshifts0 [1 := dweights (c * dweights_sC + dweights_sS)]
                                else dshifts0);
                    dshifts = (if sizeD > 1 then dshifts1 [2 := dweights (c * dweights_sC + 2 * dweights_sS)]
                               else dshifts1)
                in compute_interpolated I vals_array (dshifts ! 0) (dshifts ! 1) (dshifts ! 2)
                     sizeH sizeW sizeD)
             else get_shifted_value (i - shifts ! 0) sizeH input_sH
                    (j - shifts ! 1) sizeW input_sW
                    (k - shifts ! 2) sizeD input_sD
                    0 0 input_NC zp padding_mode)
      in output (output_NCHWD := val))"

text \<open>
  Modelled from the spec: the macro \<^verbatim>\<open>ADD\<close> comes from \<^verbatim>\<open>global_scope.h\<close>, which is
  not among the sources. The spec has the product added to (not assigned to) the
  accumulator slot the pointer names.
\<close>

definition ADD :: "'a::plus buf \<Rightarrow> int \<Rightarrow> 'a \<Rightarrow> 'a buf" where
  "ADD p off v = p (off := p off + v)"

text \<open>
  The backward kernel reads the upstream gradient (\<^verbatim>\<open>input_grad\<close>), the original input
  and both weight parts; it stores one element of the input gradient (\<^verbatim>\<open>output_grad\<close>)
  and adds into the shift gradient (\<^verbatim>\<open>weights_grad\<close>). The two written buffers are
  freshly allocated by the caller, so they alias nothing; the model returns them as a
  pair.
\<close>

definition shift_backward_kernel_nchwd ::
  "'a::comm_ring_1 interpolation \<Rightarrow> 'a buf \<Rightarrow> 'a buf \<Rightarrow> 'a buf \<Rightarrow> int buf \<Rightarrow> 'a buf \<Rightarrow> 'a buf \<Rightarrow>
   int \<Rightarrow> int \<Rightarrow> int \<Rightarrow> int \<Rightarrow> int \<Rightarrow> int \<Rightarrow> int \<Rightarrow> int \<Rightarrow>
   int \<Rightarrow> int \<Rightarrow> int \<Rightarrow> int \<Rightarrow> int \<Rightarrow> int \<Rightarrow> int \<Rightarrow> int \<Rightarrow> int \<Rightarrow> int \<Rightarrow>
   int \<Rightarrow> int \<Rightarrow> int \<Rightarrow> int \<Rightarrow> int \<Rightarrow>
   int \<Rightarrow> int \<Rightarrow> int \<Rightarrow> int \<Rightarrow> int \<Rightarrow> int \<Rightarrow> BIPadding \<Rightarrow> bool \<Rightarrow> 'a buf \<times> 'a buf" where
  "shift_backward_kernel_nchwd I input_grad input output_grad weights dweights weights_grad
     n c i j k sizeH sizeW sizeD
     input_grad_sN input_grad_sC input_grad_sH input_grad_sW input_grad_sD
     input_sN input_sC input_sH input_sW input_sD
     output_grad_sN output_grad_sC output_grad_sH output_grad_sW output_grad_sD
     weights_sC weights_sS dweights_sC dweights_sS weights_grad_sC weights_grad_sS
     padding_mode active =
     (let input_grad_NC = ptr_add input_grad (n * input_grad_sN + c * input_grad_sC);
          input_grad_NCHWD_val = input_grad_NC (i * input_grad_sH + j * input_grad_sW + k * input_grad_sD);
          input_NC = ptr_add input (n * input_sN + c * input_sC);
          output_grad_NCHWD = n * output_grad_sN + c * output_grad_sC + i * output_grad_sH
                                + j * output_grad_sW + k * output_grad_sD;
          zp = 0;
          vals_array0 = [zp, zp, zp, zp, zp, zp, zp, zp];
          shifts0 = [weights (c * weights_sC), 0, 0];
          dshifts0 = [dweights (c * dweights_sC), zp, zp];
          shifts1 = (if sizeW > 1 then shifts0 [1 := weights (c * weights_sC + weights_sS)] else shifts0);
          dshifts1 = (if sizeW > 1 then dshifts0 [1 := dweights (c * dweights_sC + dweights_sS)] else dshifts0);
          shifts = (if sizeD > 1 then shifts1 [2 := weights (c * weights_sC + 2 * weights_sS)] else shifts1);
          dshifts = (if sizeD > 1 then dshifts1 [2 := dweights (c * dweights_sC + 2 * dweights_sS)] else dshifts1);
          vals_array1 =
            (if active then get_shifted_values (i - shifts ! 0) sizeH input_sH
                              (j - shifts ! 1) sizeW input_sW
                              (k - shifts ! 2) sizeD input_sD
                              0 0 input_grad_NC zp padding_mode vals_array0
             else vals_array0);
          output_grad1 =
            (if active then output_grad (output_grad_NCHWD :=
                 compute_interpolated I vals_array1 (dshifts ! 0) (dshifts ! 1) (dshifts ! 2)
                   sizeH sizeW sizeD)
             else output_grad (output_grad_NCHWD :=
                 get_shifted_value (i + shifts ! 0) sizeH input_sH
                   (j + shifts ! 1) sizeW input_sW
                   (k + shifts ! 2) sizeD input_sD
                   0 0 input_grad_NC zp padding_mode));
          vals_array = get_shifted_values (i - shifts ! 0) sizeH input_sH
                         (j - shifts ! 1) sizeW input_sW
                         (k - shifts ! 2) sizeD input_sD
                         0 0 input_NC zp padding_mode vals_array1;
          new_weights_grad = compute_weight_gradients I vals_array (dshifts ! 0) (dshifts ! 1) (dshifts ! 2)
                               sizeH sizeW sizeD [zp, zp, zp];
          weights_grad1 = ADD weights_grad (c * weights_grad_sC)
                            (input_grad_NCHWD_val * new_weights_grad ! 0);
          weights_grad2 = (if sizeW > 1
            then ADD weights_grad1 (c * weights_grad_sC + weights_grad_sS)
                   (input_grad_NCHWD_val * new_weights_grad ! 1)
            else weights_grad1);
          weights_grad3 = (if sizeD > 1
            then ADD weights_grad2 (c * weights_grad_sC + 2 * weights_grad_sS)
                   (input_grad_NCHWD_val * new_weights_grad ! 2)
            else weights_grad2)
      in (output_grad1, weights_grad3))"

section \<open>The channel-last kernels\<close>

text \<open>
  A channel-last kernel call handles one position \<open>(n, i, j, k)\<close> and loops over the
  channels. The loop \<^verbatim>\<open>for (idx_t c = 0; c < sizeC; c++)\<close> is \<open>for_loop 0 sizeC\<close> applied to
  the loop body; the state of the loop holds the local arrays declared before it and the
  buffers that are written.
\<close>

function for_loop :: "int \<Rightarrow> int \<Rightarrow> (int \<Rightarrow> 's \<Rightarrow> 's) \<Rightarrow> 's \<Rightarrow> 's" where
  "for_loop c n body s = (if c < n then for_loop (c + 1) n body (body c s) else s)"
  by pat_completeness auto
termination
  by (relation "measure (\<lambda>(c, n, body, s). nat (n - c))") auto

declare for_loop.simps [simp del]

text \<open>
  The forward loop body. The fractional offsets of the second and third axis are read
  from \<^verbatim>\<open>dweights\<close> whatever the extents are (the channel-major kernel reads them only
  for an extent above 1).
\<close>

definition shift_forward_body_nhwdc ::
  "'a::zero interpolation \<Rightarrow> 'a buf \<Rightarrow> int buf \<Rightarrow> 'a buf \<Rightarrow>
   int \<Rightarrow> int \<Rightarrow> int \<Rightarrow> int \<Rightarrow> int \<Rightarrow> int \<Rightarrow> int \<Rightarrow>
   int \<Rightarrow> int \<Rightarrow> int \<Rightarrow> int \<Rightarrow> int \<Rightarrow> int \<Rightarrow> int \<Rightarrow> int \<Rightarrow> int \<Rightarrow> int \<Rightarrow>
   int \<Rightarrow> int \<Rightarrow> int \<Rightarrow> int \<Rightarrow> BIPadding \<Rightarrow> bool \<Rightarrow>
   int \<Rightarrow> int list \<times> 'a buf \<Rightarrow> int list \<times> 'a buf" where
  "shift_forward_body_nhwdc I input weights dweights n i j k sizeH sizeW sizeD
     input_sN input_sC input_sH input_sW input_sD
     output_sN output_sC output_sH output_sW output_sD
     weights_sC weights_sS dweights_sC dweights_sS padding_mode active c st =
     (let input_N = ptr_add input (n * input_sN);
          output_NHWD = n * output_sN + i * output_sH + j * output_sW + k * output_sD;
          zp = 0;
          shifts0 = (fst st) [0 := weights (c * weights_sC)];
          shifts1 = (if sizeW > 1 then shifts0 [1 := weights (weights_sS + c * weights_sC)] else shifts0);
          shifts = (if sizeD > 1 then shifts1 [2 := weights (2 * weights_sS + c * weights_sC)] else shifts1);
          val =
            (if active then
               (let vals_array = get_shifted_values (i - shifts ! 0) sizeH input_sH
                                   (j - shifts ! 1) sizeW input_sW
                                   (k - shifts ! 2) sizeD input_sD
                                   c input_sC input_N zp padding_mode [zp, zp, zp, zp, zp, zp, zp, zp]
                in compute_interpolated I vals_array (dweights (c * dweights_sC))
                     (dweights (dweights_sS + c * dweights_sC))
                     (dweights (2 * dweights_sS + c * dweights_sC))
                     sizeH sizeW sizeD)
             else get_shifted_value (i - shifts ! 0) sizeH input_sH
                    (j - shifts ! 1) sizeW input_sW
                    (k - shifts ! 2) sizeD input_sD
                    c input_sC input_N zp padding_mode)
      in (shifts, (snd st) (output_NHWD + c * output_sC := val)))"

definition shift_forward_kernel_nhwdc ::
  "'a::zero interpolation \<Rightarrow> 'a buf \<Rightarrow> 'a buf \<Rightarrow> int buf \<Rightarrow> 'a buf \<Rightarrow>
   int \<Rightarrow> int \<Rightarrow> int \<Rightarrow> int \<Rightarrow> int \<Rightarrow> int \<Rightarrow> int \<Rightarrow> int \<Rightarrow>
   int \<Rightarrow> int \<Rightarrow> int \<Rightarrow> int \<Rightarrow> int \<Rightarrow> int \<Rightarrow> int \<Rightarrow> int \<Rightarrow> int \<Rightarrow> int \<Rightarrow>
   int \<Rightarrow> int \<Rightarrow> int \<Rightarrow> int \<Rightarrow> BIPadding \<Rightarrow> bool \<Rightarrow> 'a buf" where
  "shift_forward_kernel_nhwdc I input output weights dweights n i j k sizeC sizeH sizeW sizeD
     input_sN input_sC input_sH input_sW input_sD
     output_sN output_sC output_sH output_sW output_sD
     weights_sC weights_sS dweights_sC dweights_sS padding_mode active =
     snd (for_loop 0 sizeC
       (shift_forward_body_nhwdc I input weights dweights n i j k sizeH sizeW sizeD
          input_sN input_sC input_sH input_sW input_sD
          output_sN output_sC output_sH output_sW output_sD
          weights_sC weights_sS dweights_sC dweights_sS padding_mode active)
       ([0, 0, 0], output))"

text \<open>
  The loop keeps \<^verbatim>\<open>shifts[1]\<close> and \<^verbatim>\<open>shifts[2]\<close> at their initial \<open>0\<close> unless the
  extent of the axis is above 1.
\<close>

definition shifts_cleared :: "int \<Rightarrow> int \<Rightarrow> int list \<Rightarrow> bool" where
  "shifts_cleared sizeW sizeD shifts =
     (length shifts = 3 \<and> (sizeW > 1 \<or> shifts ! 1 = 0) \<and> (sizeD > 1 \<or> shifts ! 2 = 0))"

text \<open>
  The backward kernel declares \<^verbatim>\<open>shifts[3]\<close>, \<^verbatim>\<open>dshifts[3]\<close>, \<^verbatim>\<open>_vals_array[8]\<close> and
  \<^verbatim>\<open>_new_weights_grad[3]\<close> before the loop. The stores its body makes into \<^verbatim>\<open>shifts\<close>
  and \<^verbatim>\<open>dshifts\<close> go through \<open>local_store\<close>: C++ gives no meaning to a store at an index
  that is not below the array's length; the model leaves the array as it is and records
  the store in the list of faults.
\<close>

datatype local_array = Shifts | Dshifts | Vals_array | New_weights_grad

type_synonym fault = "local_array \<times> nat"

definition local_store ::
  "local_array \<Rightarrow> nat \<Rightarrow> 'b \<Rightarrow> 'b list \<times> fault list \<Rightarrow> 'b list \<times> fault list" where
  "local_store a idx v xf =
     (if idx < length (fst xf) then ((fst xf) [idx := v], snd xf)
      else (fst xf, snd xf @ [(a, idx)]))"

record 'a backward_state =
  st_shifts :: "int list"
  st_dshifts :: "'a list"
  st_vals_array :: "'a list"
  st_new_weights_grad :: "'a list"
  st_output_grad :: "'a buf"
  st_weights_grad :: "'a buf"
  st_faults :: "fault list"

definition shift_backward_body_nhwdc ::
  "'a::comm_ring_1 interpolation \<Rightarrow> 'a buf \<Rightarrow> 'a buf \<Rightarrow> int buf \<Rightarrow> 'a buf \<Rightarrow>
   int \<Rightarrow> int \<Rightarrow> int \<Rightarrow> int \<Rightarrow> int \<Rightarrow> int \<Rightarrow> int \<Rightarrow>
   int \<Rightarrow> int \<Rightarrow> int \<Rightarrow> int \<Rightarrow> int \<Rightarrow> int \<Rightarrow> int \<Rightarrow> int \<Rightarrow> int \<Rightarrow> int \<Rightarrow>
   int \<Rightarrow> int \<Rightarrow> int \<Rightarrow> int \<Rightarrow> int \<Rightarrow>
   int \<Rightarrow> int \<Rightarrow> int \<Rightarrow> int \<Rightarrow> int \<Rightarrow> int \<Rightarrow> BIPadding \<Rightarrow> bool \<Rightarrow>
   int \<Rightarrow> 'a backward_state \<Rightarrow> 'a backward_state" where
  "shift_backward_body_nhwdc I input_grad input weights dweights n i j k sizeH sizeW sizeD
     input_grad_sN input_grad_sC input_grad_sH input_grad_sW input_grad_sD
     input_sN input_sC input_sH input_sW input_sD
     output_grad_sN output_grad_sC output_grad_sH output_grad_sW output_grad_sD
     weights_sC weights_sS dweights_sC dweights_sS weights_grad_sC weights_grad_sS
     padding_mode active c st =
     (let input_grad_N = ptr_add input_grad (n * input_grad_sN);
          input_N = ptr_add input (n * input_sN);
          output_grad_NHWD = n * output_grad_sN + i * output_grad_sH + j * output_grad_sW
                               + k * output_grad_sD;
          input_grad_NHWD = ptr_add input_grad_N (i * input_grad_sH + j * input_grad_sW + k * input_grad_sD);
          zp = 0;
          sf0 = local_store Shifts 0 (weights (c * weights_sC)) (st_shifts st, st_faults st);
          df0 = local_store Dshifts 3 (dweights (c * dweights_sC)) (st_dshifts st, snd sf0);
          sf1 = (if sizeW > 1
                 then local_store Shifts 1 (weights (weights_sS + c * weights_sC)) (fst sf0, snd df0)
                 else (fst sf0, snd df0));
          df1 = (if sizeW > 1
                 then local_store Dshifts 1 (dweights (dweights_sS + c * dweights_sC)) (fst df0, snd sf1)
                 else (fst df0, snd sf1));
          sf2 = (if sizeD > 1
                 then local_store Shifts 2 (weights (2 * weights_sS + c * weights_sC)) (fst sf1, snd df1)
                 else (fst sf1, snd df1));
          df2 = (if sizeD > 1
                 then local_store Dshifts 2 (dweights (2 * dweights_sS + c * dweights_sC)) (fst df1, snd sf2)
                 else (fst df1, snd sf2));
          shifts = fst sf2;
          dshifts = fst df2;
          vals_array1 =
            (if active then get_shifted_values (i - shifts ! 0) sizeH input_sH
                              (j - shifts ! 1) sizeW input_sW
                              (k - shifts ! 2) sizeD input_sD
                              c input_grad_sC input_grad_N zp padding_mode (st_vals_array st)
             else st_vals_array st);
          output_grad1 =
            (if active then (st_output_grad st) (output_grad_NHWD + c * output_grad_sC :=
                 compute_interpolated I vals_array1 (dshifts ! 0) (dshifts ! 1) (dshifts ! 2)
                   sizeH sizeW sizeD)
             else (st_output_grad st) (output_grad_NHWD + c * output_grad_sC :=
                 get_shifted_value (i + shifts ! 0) sizeH input_sH
                   (j + shifts ! 1) sizeW input_sW
                   (k + shifts ! 2) sizeD input_sD
                   c input_grad_sC input_grad_N zp padding_mode));
          vals_array = get_shifted_values (i - shifts ! 0) sizeH input_sH
                         (j - shifts ! 1) sizeW input_sW
                         (k - shifts ! 2) sizeD input_sD
                         c input_sC input_N zp padding_mode vals_array1;
          new_weights_grad = compute_weight_gradients I vals_array (dshifts ! 0) (dshifts ! 1) (dshifts ! 2)
                               sizeH sizeW sizeD (st_new_weights_grad st);
          input_grad_NHWDC_val = input_grad_NHWD (c * input_grad_sC);
          weights_grad1 = ADD (st_weights_grad st) (c * weights_grad_sC)
                            (input_grad_NHWDC_val * new_weights_grad ! 0);
          weights_grad2 = (if sizeW > 1
            then ADD weights_grad1 (weights_grad_sS + c * weights_grad_sC)
                   (input_grad_NHWDC_val * new_weights_grad ! 1)
            else weights_grad1);
          weights_grad3 = (if sizeD > 1
            then ADD weights_grad2 (2 * weights_grad_sS + c * weights_grad_sC)
                   (input_grad_NHWDC_val * new_weights_grad ! 2)
            else weights_grad2)
      in \<lparr> st_shifts = shifts, st_dshifts = dshifts, st_vals_array = vals_array,
           st_new_weights_grad = new_weights_grad, st_output_grad = output_grad1,
           st_weights_grad = weights_grad3, st_faults = snd df2 \<rparr>)"

definition shift_backward_kernel_nhwdc ::
  "'a::comm_ring_1 interpolation \<Rightarrow> 'a buf \<Rightarrow> 'a buf \<Rightarrow> 'a buf \<Rightarrow> int buf \<Rightarrow> 'a buf \<Rightarrow> 'a buf \<Rightarrow>
   int \<Rightarrow> int \<Rightarrow> int \<Rightarrow> int \<Rightarrow> int \<Rightarrow> int \<Rightarrow> int \<Rightarrow> int \<Rightarrow>
   int \<Rightarrow> int \<Rightarrow> int \<Rightarrow> int \<Rightarrow> int \<Rightarrow> int \<Rightarrow> int \<Rightarrow> int \<Rightarrow> int \<Rightarrow> int \<Rightarrow>
   int \<Rightarrow> int \<Rightarrow> int \<Rightarrow> int \<Rightarrow> int \<Rightarrow>
   int \<Rightarrow> int \<Rightarrow> int \<Rightarrow> int \<Rightarrow> int \<Rightarrow> int \<Rightarrow> BIPadding \<Rightarrow> bool \<Rightarrow> 'a backward_state" where
  "shift_backward_kernel_nhwdc I input_grad input output_grad weights dweights weights_grad
     n i j k sizeC sizeH sizeW sizeD
     input_grad_sN input_grad_sC input_grad_sH input_grad_sW input_grad_sD
     input_sN input_sC input_sH input_sW input_sD
     output_grad_sN output_grad_sC output_grad_sH output_grad_sW output_grad_sD
     weights_sC weights_sS dweights_sC dweights_sS weights_grad_sC weights_grad_sS
     padding_mode active =
     for_loop 0 sizeC
       (shift_backward_body_nhwdc I input_grad input weights dweights n i j k sizeH sizeW sizeD
          input_grad_sN input_grad_sC input_grad_sH input_grad_sW input_grad_sD
          input_sN input_sC input_sH input_sW input_sD
          output_grad_sN output_grad_sC output_grad_sH output_grad_sW output_grad_sD
          weights_sC weights_sS dweights_sC dweights_sS weights_grad_sC weights_grad_sS
          padding_mode active)
       \<lparr> st_shifts = [0, 0, 0], st_dshifts = [0, 0, 0],
         st_vals_array = [0, 0, 0, 0, 0, 0, 0, 0], st_new_weights_grad = [0, 0, 0],
         st_output_grad = output_grad, st_weights_grad = weights_grad, st_faults = [] \<rparr>"

section \<open>The per-element rules in the spec's words\<close>

text \<open>
  The spec describes the kernels by what one output element receives. The definitions of
  this section follow the spec's words and are compared with the kernels below.

  \<open>resolved_sample\<close> is the sample of a buffer at a spatial coordinate under the
  padding policy: each axis is resolved by the index resolver, and the fill value stands
  in as soon as one axis resolves to the sentinel.
\<close>

definition resolved_sample ::
  "'a buf \<Rightarrow> int \<Rightarrow> int \<Rightarrow> int \<Rightarrow> int \<Rightarrow> int \<Rightarrow> int \<Rightarrow> int \<Rightarrow> BIPadding \<Rightarrow> 'a \<Rightarrow>
   int \<Rightarrow> int \<Rightarrow> int \<Rightarrow> 'a" where
  "resolved_sample buffer base sizeH sizeW sizeD sH sW sD pm fill x y z =
     (if infer_index x sizeH pm = - 1 \<or> infer_index y sizeW pm = - 1 \<or> infer_index z sizeD pm = - 1
      then fill
      else buffer (base + infer_index x sizeH pm * sH + infer_index y sizeW pm * sW
                     + infer_index z sizeD pm * sD))"

text \<open>
  The integer shift and the fractional offset of a channel on the axes 0, 1, 2: the
  second and third axis count only when their extent is above 1.
\<close>

definition channel_shift :: "int buf \<Rightarrow> int \<Rightarrow> int \<Rightarrow> int \<Rightarrow> int \<Rightarrow> int \<Rightarrow> int \<Rightarrow> int" where
  "channel_shift weights weights_sC weights_sS sizeW sizeD c axis =
     (if axis = 0 then weights (c * weights_sC)
      else if axis = 1 then (if sizeW > 1 then weights (c * weights_sC + weights_sS) else 0)
      else (if sizeD > 1 then weights (c * weights_sC + 2 * weights_sS) else 0))"

definition channel_offset :: "'a::zero buf \<Rightarrow> int \<Rightarrow> int \<Rightarrow> int \<Rightarrow> int \<Rightarrow> int \<Rightarrow> int \<Rightarrow> 'a" where
  "channel_offset dweights dweights_sC dweights_sS sizeW sizeD c axis =
     (if axis = 0 then dweights (c * dweights_sC)
      else if axis = 1 then (if sizeW > 1 then dweights (c * dweights_sC + dweights_sS) else 0)
      else (if sizeD > 1 then dweights (c * dweights_sC + 2 * dweights_sS) else 0))"

text \<open>
  The N-linear blend of the corner values around a base coordinate: \<open>corner a b d\<close> is the
  sample at the base coordinate moved by \<open>a\<close>, \<open>b\<close>, \<open>d\<close> along the three axes. The rank
  is chosen by the extents, third axis first. With a third axis of extent above 1 and a
  second axis of extent 1 the two corners \<open>(0, 1, 0)\<close> and \<open>(1, 1, 0)\<close> are not gathered:
  their slots hold the fill value \<open>0\<close>.
\<close>

definition blend_corners ::
  "'a::zero interpolation \<Rightarrow> (int \<Rightarrow> int \<Rightarrow> int \<Rightarrow> 'a) \<Rightarrow> 'a \<Rightarrow> 'a \<Rightarrow> 'a \<Rightarrow> int \<Rightarrow> int \<Rightarrow> 'a" where
  "blend_corners I corner fH fW fD sizeW sizeD =
     (if sizeD > 1 then
        interp3D I (corner 0 0 0) (corner 1 0 0)
          (if sizeW > 1 then corner 0 1 0 else 0) (if sizeW > 1 then corner 1 1 0 else 0)
          (corner 0 0 1) (corner 1 0 1) (corner 0 1 1) (corner 1 1 1) fH fW fD
      else if sizeW > 1 then
        interp2D I (corner 0 0 0) (corner 1 0 0) (corner 0 1 0) (corner 1 1 0) fH fW
      else interp1D I (corner 0 0 0) (corner 1 0 0) fH)"

text \<open>
  The forward rule: the base coordinate is the output coordinate minus the channel's
  integer shift; in interpolating mode the element is the blend of the corners of the
  input there, in direct mode it is the single resolved sample.
\<close>

definition forward_element ::
  "'a::zero interpolation \<Rightarrow> 'a buf \<Rightarrow> int buf \<Rightarrow> 'a buf \<Rightarrow>
   int \<Rightarrow> int \<Rightarrow> int \<Rightarrow> int \<Rightarrow> int \<Rightarrow> int \<Rightarrow> int \<Rightarrow> int \<Rightarrow>
   int \<Rightarrow> int \<Rightarrow> int \<Rightarrow> int \<Rightarrow> int \<Rightarrow>
   int \<Rightarrow> int \<Rightarrow> int \<Rightarrow> int \<Rightarrow> BIPadding \<Rightarrow> bool \<Rightarrow> 'a" where
  "forward_element I input weights dweights n c i j k sizeH sizeW sizeD
     input_sN input_sC input_sH input_sW input_sD
     weights_sC weights_sS dweights_sC dweights_sS padding_mode active =
     (let shift = channel_shift weights weights_sC weights_sS sizeW sizeD c;
          offset = channel_offset dweights dweights_sC dweights_sS sizeW sizeD c;
          corner = (\<lambda>a b d. resolved_sample input (n * input_sN + c * input_sC)
                      sizeH sizeW sizeD input_sH input_sW input_sD padding_mode 0
                      (i - shift 0 + a) (j - shift 1 + b) (k - shift 2 + d))
      in if active then blend_corners I corner (offset 0) (offset 1) (offset 2) sizeW sizeD
         else corner 0 0 0)"




section \<open>The channel-major backward loop\<close>

text \<open>
  \<^verbatim>\<open>_shifts_backward_cpu\<close> (and \<^verbatim>\<open>_shifts_backward_cuda\<close>) run the channel-major kernel
  once for every linear index below \<^verbatim>\<open>sizeN*sizeC*sizeH*sizeW*sizeD\<close>, decoded to a
  coordinate; \<^verbatim>\<open>at::parallel_for\<close> and the CUDA grid decide the order. The model runs the
  kernel calls one after the other in the order of the list \<open>order\<close> of linear indices,
  so a schedule is a permutation of the indices; a kernel call is one step.
\<close>

definition decode_index :: "int \<Rightarrow> int \<Rightarrow> int \<Rightarrow> int \<Rightarrow> int \<Rightarrow> int \<times> int \<times> int \<times> int \<times> int" where
  "decode_index index sizeC sizeH sizeW sizeD =
     (let k = index smod sizeD;
          j = (index sdiv sizeD) smod sizeW;
          i = (index sdiv (sizeD * sizeW)) smod sizeH;
          c = (index sdiv (sizeD * sizeW * sizeH)) smod sizeC;
          n = index sdiv (sizeD * sizeW * sizeH * sizeC)
      in (n, c, i, j, k))"

text \<open>
  The linear index of a coordinate, the inverse of \<open>decode_index\<close> (it is not part of the
  source, which only decodes).
\<close>

definition linear_index :: "int \<Rightarrow> int \<Rightarrow> int \<Rightarrow> int \<Rightarrow> int \<Rightarrow> int \<Rightarrow> int \<Rightarrow> int \<Rightarrow> int \<Rightarrow> int" where
  "linear_index n c i j k sizeC sizeH sizeW sizeD =
     (((n * sizeC + c) * sizeH + i) * sizeW + j) * sizeD + k"



section \<open>Splitting the shift weights\<close>








section \<open>The index resolver\<close>

lemma smod_pos_range:
  fixes a b :: int
  assumes "0 < b"
  shows "- b < a smod b" and "a smod b < b"
proof -
  have lt: "\<bar>a\<bar> mod b < b" and ge: "0 \<le> \<bar>a\<bar> mod b"
    using assms by simp_all
  have "a smod b = \<bar>a\<bar> mod b \<or> a smod b = - (\<bar>a\<bar> mod b) \<or> a smod b = 0"
    using assms by (auto simp: signed_modulo_int_def sgn_if)
  with lt ge assms show "- b < a smod b" and "a smod b < b"
    by linarith+
qed

lemma smod_nonneg_eq_mod:
  fixes a b :: int
  assumes "0 \<le> a" and "0 < b"
  shows "a smod b = a mod b"
  using assms by (auto simp: signed_modulo_int_def sgn_if)

lemma mod_idx_range:
  assumes "0 < b"
  shows "0 \<le> mod_idx a b \<and> mod_idx a b < b"
proof -
  have "0 \<le> b + (a smod b)"
    using smod_pos_range(1) [OF assms, of a] by simp
  then have "mod_idx a b = (b + (a smod b)) mod b"
    unfolding mod_idx_def using assms by (rule smod_nonneg_eq_mod)
  then show ?thesis
    using assms by simp
qed

lemma infer_index_in_range:
  assumes "0 \<le> idx" and "idx < len"
  shows "infer_index idx len pm = idx"
  using assms by (simp add: infer_index_def)

lemma infer_index_non_zeros:
  assumes "1 \<le> len" and "pm \<noteq> Zeros"
  shows "0 \<le> infer_index idx len pm \<and> infer_index idx len pm < len"
proof (cases "0 \<le> idx \<and> idx < len")
  case True
  then show ?thesis by (simp add: infer_index_def)
next
  case False
  show ?thesis
  proof (cases pm)
    case Zeros
    with assms show ?thesis by simp
  next
    case Border
    with False assms show ?thesis by (auto simp: infer_index_def)
  next
    case Periodic
    with False assms mod_idx_range [of len idx] show ?thesis
      by (auto simp: infer_index_def)
  next
    case Reflect
    show ?thesis
    proof (cases "len = 1")
      case True
      with False Reflect show ?thesis by (auto simp: infer_index_def)
    next
      case ne: False
      with assms have "0 < len - 1" by simp
      from mod_idx_range [OF this, of idx] False Reflect ne show ?thesis
        by (auto simp: infer_index_def Let_def)
    qed
  next
    case Symmetric
    from assms have "0 < len" by simp
    from mod_idx_range [OF this, of idx] False Symmetric show ?thesis
      by (auto simp: infer_index_def Let_def)
  qed
qed

text \<open>
  C5. For every index, every length \<open>len \<ge> 1\<close> and every padding mode: an index already
  in \<open>[0, len)\<close> is returned unchanged; the result is always either an index in
  \<open>[0, len)\<close> or the sentinel \<open>-1\<close>; the sentinel is returned only under Zeros and only
  for an out-of-range index; the four other modes always give an index in \<open>[0, len)\<close>.
\<close>

theorem infer_index_contract:
  assumes "1 \<le> len"
  shows "(0 \<le> idx \<and> idx < len \<longrightarrow> infer_index idx len pm = idx)
       \<and> ((0 \<le> infer_index idx len pm \<and> infer_index idx len pm < len) \<or> infer_index idx len pm = - 1)
       \<and> (infer_index idx len pm = - 1 \<longrightarrow> pm = Zeros \<and> \<not> (0 \<le> idx \<and> idx < len))
       \<and> (pm \<noteq> Zeros \<longrightarrow> 0 \<le> infer_index idx len pm \<and> infer_index idx len pm < len)"
proof (intro conjI impI)
  show "infer_index idx len pm = idx" if "0 \<le> idx \<and> idx < len"
    using that by (simp add: infer_index_in_range)
  show "(0 \<le> infer_index idx len pm \<and> infer_index idx len pm < len) \<or> infer_index idx len pm = - 1"
  proof (cases "pm = Zeros")
    case True
    then show ?thesis by (simp add: infer_index_def)
  next
    case False
    with assms show ?thesis by (simp add: infer_index_non_zeros)
  qed
  show "pm = Zeros" if "infer_index idx len pm = - 1"
    using that infer_index_non_zeros [OF assms, of pm idx] by auto
  show "\<not> (0 \<le> idx \<and> idx < len)" if "infer_index idx len pm = - 1"
    using that by (auto simp: infer_index_in_range)
  show "0 \<le> infer_index idx len pm" if "pm \<noteq> Zeros"
    using that assms by (simp add: infer_index_non_zeros)
  show "infer_index idx len pm < len" if "pm \<noteq> Zeros"
    using that assms by (simp add: infer_index_non_zeros)
qed

theorem infer_index_contract_witness:
  "infer_index 3 5 Border = 3 \<and> infer_index 7 5 Zeros = - 1 \<and> Zeros = Zeros
     \<and> 0 \<le> infer_index (- 7) 5 Reflect \<and> infer_index (- 7) 5 Reflect < 5"
  using infer_index_contract [of 5 3 Border] infer_index_contract [of 5 7 Zeros]
    infer_index_contract [of 5 "- 7" Reflect]
  by (simp add: infer_index_def)

text \<open>
  C6. The boundary examples at \<open>len = 5\<close>: Periodic maps \<open>-1\<close> to \<open>4\<close> and \<open>5\<close> to \<open>0\<close>,
  Reflect maps \<open>-1\<close> to \<open>1\<close> and \<open>5\<close> to \<open>3\<close>, Symmetric maps \<open>-1\<close> to \<open>0\<close> and \<open>5\<close>
  to \<open>4\<close>.
\<close>

theorem infer_index_boundary_examples:
  "infer_index (- 1) 5 Periodic = 4 \<and> infer_index 5 5 Periodic = 0
     \<and> infer_index (- 1) 5 Reflect = 1 \<and> infer_index 5 5 Reflect = 3
     \<and> infer_index (- 1) 5 Symmetric = 0 \<and> infer_index 5 5 Symmetric = 4"
  by (simp add: infer_index_def mod_idx_def odd_seq_def ABS_def
      signed_modulo_int_def signed_divide_int_def and_one_eq)

text \<open>
  Beyond the examples: outside the range the parity test of the Reflect and Symmetric
  cases is the parity of the floor quotient, also for a negative index, and the folded
  index is the mathematical modulo, so both modes mirror the index on every odd fold.
\<close>

lemma mod_idx_eq_mod:
  assumes "0 < b"
  shows "mod_idx a b = a mod b"
proof -
  have "0 \<le> b + (a smod b)"
    using smod_pos_range(1) [OF assms, of a] by simp
  then have "mod_idx a b = (b + (a smod b)) mod b"
    unfolding mod_idx_def using assms by (rule smod_nonneg_eq_mod)
  also have "\<dots> = (a smod b) mod b"
    by simp
  also have "\<dots> = a mod b"
  proof (cases "0 \<le> a")
    case True
    then show ?thesis using assms by (simp add: smod_nonneg_eq_mod)
  next
    case False
    then have "a smod b = - ((- a) mod b)"
      using assms by (simp add: signed_modulo_int_def sgn_if)
    then show ?thesis
      by (simp add: mod_minus_eq)
  qed
  finally show ?thesis .
qed

lemma div_neg_shift:
  fixes a p :: int
  assumes "0 < p" and "0 \<le> a"
  shows "(- a - 1) div p = - (a div p) - 1"
proof -
  define q r where "q = a div p" and "r = a mod p"
  have a: "a = p * q + r" and r: "0 \<le> r" "r < p"
    using assms by (simp_all add: q_def r_def)
  have "- a - 1 = p * (- q - 1) + (p - r - 1)"
    unfolding a by (simp add: algebra_simps)
  moreover have "0 \<le> p - r - 1" "p - r - 1 < p"
    using r by simp_all
  ultimately have "(- a - 1) div p = - q - 1"
    by (rule int_div_pos_eq)
  then show ?thesis
    by (simp add: q_def)
qed

lemma odd_seq_parity:
  assumes "0 < p"
  shows "odd_seq idx p = odd (idx div p)"
proof (cases "idx < 0")
  case False
  then have "(ABS idx - of_bool (idx < 0)) sdiv p = idx div p"
    using assms by (simp add: ABS_def signed_divide_int_def sgn_if)
  with False show ?thesis
    by (simp add: odd_seq_def and_one_eq odd_iff_mod_2_eq_one)
next
  case True
  then have nonneg: "0 \<le> - idx - 1" by simp
  have quot: "(ABS idx - 1) sdiv p = (- idx - 1) div p"
    using True assms nonneg by (simp add: ABS_def signed_divide_int_def sgn_if)
  have "idx div p = (- (- idx - 1) - 1) div p"
    by simp
  also have "\<dots> = - ((- idx - 1) div p) - 1"
    using assms nonneg by (rule div_neg_shift)
  finally have "odd (idx div p) = odd (1 + (- idx - 1) div p)"
    by simp
  moreover have "odd_seq idx p = odd (1 + (- idx - 1) div p)"
    using True by (simp add: odd_seq_def and_one_eq quot flip: odd_iff_mod_2_eq_one)
  ultimately show ?thesis
    by simp
qed

lemma infer_index_symmetric:
  assumes "1 \<le> len" and "idx < 0 \<or> len \<le> idx"
  shows "infer_index idx len Symmetric
    = (if odd (idx div len) then len - 1 - idx mod len else idx mod len)"
  using assms by (auto simp: infer_index_def Let_def mod_idx_eq_mod odd_seq_parity)

lemma infer_index_reflect:
  assumes "2 \<le> len" and "idx < 0 \<or> len \<le> idx"
  shows "infer_index idx len Reflect
    = (if odd (idx div (len - 1)) then len - 1 - idx mod (len - 1) else idx mod (len - 1))"
  using assms by (auto simp: infer_index_def Let_def mod_idx_eq_mod odd_seq_parity)

text \<open>
  No intermediate value of the resolver overflows: for an out-of-range index with
  \<open>-M < idx < M\<close> and a length \<open>1 \<le> len < M\<close>, with the period \<open>p\<close> (\<open>len\<close>, or
  \<open>len - 1\<close> for Reflect), every value computed on the way lies in \<open>[-M, M)\<close>.
\<close>

lemma smod_sign:
  fixes a b :: int
  assumes "0 < b"
  shows "a < 0 \<Longrightarrow> a smod b \<le> 0" and "0 \<le> a \<Longrightarrow> a smod b = a mod b"
  using assms by (auto simp: signed_modulo_int_def sgn_if)

lemma mod_le_diff:
  fixes a b :: int
  assumes "0 < b" and "b \<le> a"
  shows "b + a mod b \<le> a"
proof -
  have "0 < a div b"
    using assms by (simp add: pos_imp_zdiv_pos_iff)
  then have "1 \<le> a div b"
    by simp
  then have "b * 1 \<le> b * (a div b)"
    using assms by (intro mult_left_mono) simp_all
  moreover have "a = b * (a div b) + a mod b"
    by simp
  ultimately show ?thesis
    by linarith
qed

lemma infer_index_no_overflow:
  assumes "1 \<le> len" and "len < M" and "- M < idx" and "idx < M"
    and "idx < 0 \<or> len \<le> idx" and "0 < p" and "p \<le> len"
  shows "fits M (idx smod p)" and "fits M (p + idx smod p)" and "fits M (mod_idx idx p)"
    and "fits M (len - 1)" and "fits M (ABS idx)" and "fits M (ABS idx - of_bool (idx < 0))"
    and "fits M ((ABS idx - of_bool (idx < 0)) sdiv p)"
    and "fits M (of_bool (idx < 0) + (ABS idx - of_bool (idx < 0)) sdiv p)"
    and "fits M (len - 1 - mod_idx idx p)"
proof -
  have rem: "- p < idx smod p" "idx smod p < p"
    using smod_pos_range [OF assms(6), of idx] by simp_all
  with assms show "fits M (idx smod p)"
    by (simp add: fits_def)
  show "fits M (p + idx smod p)"
  proof (cases "idx < 0")
    case True
    then have "idx smod p \<le> 0"
      using assms(6) by (simp add: smod_sign)
    with rem assms show ?thesis by (simp add: fits_def)
  next
    case False
    with assms have ge: "p \<le> idx" and eq: "idx smod p = idx mod p"
      by (simp_all add: smod_sign)
    from mod_le_diff [OF assms(6) ge] rem assms show ?thesis
      by (simp add: fits_def eq)
  qed
  have m: "0 \<le> mod_idx idx p" "mod_idx idx p < p"
    using mod_idx_range [OF assms(6), of idx] by simp_all
  with assms show "fits M (mod_idx idx p)" and "fits M (len - 1 - mod_idx idx p)"
    by (simp_all add: fits_def)
  from assms show "fits M (len - 1)" and "fits M (ABS idx)"
    and "fits M (ABS idx - of_bool (idx < 0))"
    by (simp_all add: fits_def ABS_def)
  have nonneg: "0 \<le> ABS idx - of_bool (idx < 0)"
    by (simp add: ABS_def)
  then have quot: "(ABS idx - of_bool (idx < 0)) sdiv p = (ABS idx - of_bool (idx < 0)) div p"
    using assms(6) by (simp add: signed_divide_int_def sgn_if)
  have lo: "0 \<le> (ABS idx - of_bool (idx < 0)) div p"
    using nonneg assms(6) by (simp add: pos_imp_zdiv_nonneg_iff)
  have hi: "(ABS idx - of_bool (idx < 0)) div p \<le> ABS idx - of_bool (idx < 0)"
    using zdiv_mono2 [of "ABS idx - of_bool (idx < 0)" 1 p] nonneg assms(6) by simp
  have bound: "ABS idx < M"
    using assms by (simp add: ABS_def)
  have flag: "(0::int) \<le> of_bool (idx < 0)"
    by simp
  from lo hi bound flag assms(1,2) show "fits M ((ABS idx - of_bool (idx < 0)) sdiv p)"
    and "fits M (of_bool (idx < 0) + (ABS idx - of_bool (idx < 0)) sdiv p)"
    unfolding quot fits_def by linarith+
qed

section \<open>The sampler\<close>


lemma infer_index_sentinel:
  assumes "1 \<le> len"
  shows "(0 \<le> infer_index idx len pm) = (infer_index idx len pm \<noteq> - 1)"
proof (cases "pm = Zeros")
  case True
  then show ?thesis by (simp add: infer_index_def)
next
  case False
  with assms infer_index_non_zeros [of len pm idx] show ?thesis by auto
qed

lemma get_shifted_value_resolved:
  assumes "1 \<le> sizeH" and "1 \<le> sizeW" and "1 \<le> sizeD"
  shows "get_shifted_value x sizeH sH y sizeW sW z sizeD sD c sC (ptr_add buffer base) fill pm
    = resolved_sample buffer (base + c * sC) sizeH sizeW sizeD sH sW sD pm fill x y z"
  using assms
  by (simp add: get_shifted_value_def resolved_sample_def Let_def ptr_add_def
      infer_index_sentinel algebra_simps)

lemma length_get_shifted_values [simp]:
  "length (get_shifted_values x sizeH sH y sizeW sW z sizeD sD c sC array fill pm ov) = length ov"
  by (simp add: get_shifted_values_def Let_def)

lemma get_shifted_values_slots:
  assumes "length ov = 8"
  shows "get_shifted_values x sizeH sH y sizeW sW z sizeD sD c sC array fill pm ov =
    [get_shifted_value x sizeH sH y sizeW sW z sizeD sD c sC array fill pm,
     get_shifted_value (x + 1) sizeH sH y sizeW sW z sizeD sD c sC array fill pm,
     if sizeW > 1 then get_shifted_value x sizeH sH (y + 1) sizeW sW z sizeD sD c sC array fill pm else ov ! 2,
     if sizeW > 1 then get_shifted_value (x + 1) sizeH sH (y + 1) sizeW sW z sizeD sD c sC array fill pm else ov ! 3,
     if sizeD > 1 then get_shifted_value x sizeH sH y sizeW sW (z + 1) sizeD sD c sC array fill pm else ov ! 4,
     if sizeD > 1 then get_shifted_value (x + 1) sizeH sH y sizeW sW (z + 1) sizeD sD c sC array fill pm else ov ! 5,
     if sizeD > 1 then get_shifted_value x sizeH sH (y + 1) sizeW sW (z + 1) sizeD sD c sC array fill pm else ov ! 6,
     if sizeD > 1 then get_shifted_value (x + 1) sizeH sH (y + 1) sizeW sW (z + 1) sizeD sD c sC array fill pm else ov ! 7]"
proof -
  from assms obtain a0 a1 a2 a3 a4 a5 a6 a7 where ov: "ov = [a0, a1, a2, a3, a4, a5, a6, a7]"
    by (auto simp: length_Suc_conv eval_nat_numeral)
  show ?thesis
    unfolding ov by (simp add: get_shifted_values_def Let_def)
qed


section \<open>The forward kernel\<close>

text \<open>
  C1. For every output coordinate \<open>(n, c, i, j, k)\<close> the channel-major forward kernel
  stores exactly one element, at that coordinate of the output. The base sample coordinate
  is the output coordinate minus the channel's integer shift. In interpolating mode the
  stored value is the N-linear blend, with the channel's fractional offsets, of the corner
  samples of the input at the base coordinate; in direct mode it is the input sample at
  the single shifted index, each axis resolved by the index resolver, or the fill value
  \<open>0\<close> when an axis resolves to the sentinel.
\<close>

theorem shift_forward_kernel_nchwd_element:
  assumes "1 \<le> sizeH" and "1 \<le> sizeW" and "1 \<le> sizeD"
  shows "shift_forward_kernel_nchwd I input out weights dweights n c i j k sizeH sizeW sizeD
      input_sN input_sC input_sH input_sW input_sD
      output_sN output_sC output_sH output_sW output_sD
      weights_sC weights_sS dweights_sC dweights_sS padding_mode active
    = out (n * output_sN + c * output_sC + i * output_sH + j * output_sW + k * output_sD :=
        forward_element I input weights dweights n c i j k sizeH sizeW sizeD
          input_sN input_sC input_sH input_sW input_sD
          weights_sC weights_sS dweights_sC dweights_sS padding_mode active)"
proof -
  let ?s0 = "weights (c * weights_sC)"
  let ?s1 = "if sizeW > 1 then weights (c * weights_sC + weights_sS) else 0"
  let ?s2 = "if sizeD > 1 then weights (c * weights_sC + 2 * weights_sS) else 0"
  let ?NC = "ptr_add input (n * input_sN + c * input_sC)"
  have corner: "get_shifted_value x sizeH input_sH y sizeW input_sW z sizeD input_sD 0 0 ?NC 0 padding_mode
      = resolved_sample input (n * input_sN + c * input_sC) sizeH sizeW sizeD
          input_sH input_sW input_sD padding_mode 0 x y z" for x y z
    using get_shifted_value_resolved [OF assms, of x input_sH y input_sW z input_sD 0 0 input
        "n * input_sN + c * input_sC" 0 padding_mode]
    by simp
  show ?thesis
    by (cases "sizeW > 1"; cases "sizeD > 1"; cases active)
      (simp_all add: shift_forward_kernel_nchwd_def forward_element_def Let_def corner
        get_shifted_values_slots compute_interpolated_def blend_corners_def
        channel_shift_def channel_offset_def)
qed

theorem shift_forward_kernel_nchwd_element_witness:
  "(1::int) \<le> 2 \<and> (1::int) \<le> 1
   \<and> shift_forward_kernel_nchwd linear_interpolation (\<lambda>off. 10 * off + 10) (\<lambda>off. 0) (\<lambda>off. 1) (\<lambda>off. 0)
       0 0 1 0 0 2 1 1 2 2 1 0 0 2 2 1 0 0 1 1 1 1 Zeros False 1 = (10::int)
   \<and> shift_forward_kernel_nchwd linear_interpolation (\<lambda>off. 10 * off + 10) (\<lambda>off. 0) (\<lambda>off. 1) (\<lambda>off. 0)
       0 0 0 0 0 2 1 1 2 2 1 0 0 2 2 1 0 0 1 1 1 1 Zeros False 0 = (0::int)"
  using shift_forward_kernel_nchwd_element [where sizeH = 2 and sizeW = 1 and sizeD = 1
      and I = "linear_interpolation :: int interpolation"
      and input = "\<lambda>off. 10 * off + 10" and out = "\<lambda>off. 0"
      and weights = "\<lambda>off. 1" and dweights = "\<lambda>off. 0" and n = 0 and c = 0 and i = 1 and j = 0 and k = 0
      and input_sN = 2 and input_sC = 2 and input_sH = 1 and input_sW = 0 and input_sD = 0
      and output_sN = 2 and output_sC = 2 and output_sH = 1 and output_sW = 0 and output_sD = 0
      and weights_sC = 1 and weights_sS = 1 and dweights_sC = 1 and dweights_sS = 1
      and padding_mode = Zeros and active = False]
    shift_forward_kernel_nchwd_element [where sizeH = 2 and sizeW = 1 and sizeD = 1
      and I = "linear_interpolation :: int interpolation"
      and input = "\<lambda>off. 10 * off + 10" and out = "\<lambda>off. 0"
      and weights = "\<lambda>off. 1" and dweights = "\<lambda>off. 0" and n = 0 and c = 0 and i = 0 and j = 0 and k = 0
      and input_sN = 2 and input_sC = 2 and input_sH = 1 and input_sW = 0 and input_sD = 0
      and output_sN = 2 and output_sC = 2 and output_sH = 1 and output_sW = 0 and output_sD = 0
      and weights_sC = 1 and weights_sS = 1 and dweights_sC = 1 and dweights_sS = 1
      and padding_mode = Zeros and active = False]
  by (simp add: forward_element_def channel_shift_def resolved_sample_def infer_index_def)

lemma shift_forward_body_nhwdc_direct:
  "shift_forward_body_nhwdc I input weights dweights n i j k sizeH sizeW sizeD
      input_sN input_sC input_sH input_sW input_sD
      output_sN output_sC output_sH output_sW output_sD
      weights_sC weights_sS dweights_sC dweights_sS padding_mode False
   = shift_forward_body_nhwdc I input weights dweights' n i j k sizeH sizeW sizeD
      input_sN input_sC input_sH input_sW input_sD
      output_sN output_sC output_sH output_sW output_sD
      weights_sC weights_sS dweights_sC' dweights_sS' padding_mode False"
  by (intro ext) (simp add: shift_forward_body_nhwdc_def Let_def)

text \<open>
  C10. With \<open>active = False\<close> the forward kernels never read the fractional-part buffer:
  two runs that differ only in the content of \<^verbatim>\<open>dweights\<close> store the same output, in the
  channel-major and in the channel-last kernel. The output depends only on the input, the
  integer shifts, the strides and the padding mode.
\<close>

theorem forward_direct_ignores_dweights:
  "shift_forward_kernel_nchwd I input out weights dweights n c i j k sizeH sizeW sizeD
      input_sN input_sC input_sH input_sW input_sD
      output_sN output_sC output_sH output_sW output_sD
      weights_sC weights_sS dweights_sC dweights_sS padding_mode False
   = shift_forward_kernel_nchwd I input out weights dweights' n c i j k sizeH sizeW sizeD
      input_sN input_sC input_sH input_sW input_sD
      output_sN output_sC output_sH output_sW output_sD
      weights_sC weights_sS dweights_sC dweights_sS padding_mode False
   \<and> shift_forward_kernel_nhwdc I input out weights dweights n i j k sizeC sizeH sizeW sizeD
      input_sN input_sC input_sH input_sW input_sD
      output_sN output_sC output_sH output_sW output_sD
      weights_sC weights_sS dweights_sC dweights_sS padding_mode False
   = shift_forward_kernel_nhwdc I input out weights dweights' n i j k sizeC sizeH sizeW sizeD
      input_sN input_sC input_sH input_sW input_sD
      output_sN output_sC output_sH output_sW output_sD
      weights_sC weights_sS dweights_sC dweights_sS padding_mode False"
proof
  show "shift_forward_kernel_nchwd I input out weights dweights n c i j k sizeH sizeW sizeD
      input_sN input_sC input_sH input_sW input_sD
      output_sN output_sC output_sH output_sW output_sD
      weights_sC weights_sS dweights_sC dweights_sS padding_mode False
   = shift_forward_kernel_nchwd I input out weights dweights' n c i j k sizeH sizeW sizeD
      input_sN input_sC input_sH input_sW input_sD
      output_sN output_sC output_sH output_sW output_sD
      weights_sC weights_sS dweights_sC dweights_sS padding_mode False"
    by (simp add: shift_forward_kernel_nchwd_def Let_def)
  show "shift_forward_kernel_nhwdc I input out weights dweights n i j k sizeC sizeH sizeW sizeD
      input_sN input_sC input_sH input_sW input_sD
      output_sN output_sC output_sH output_sW output_sD
      weights_sC weights_sS dweights_sC dweights_sS padding_mode False
   = shift_forward_kernel_nhwdc I input out weights dweights' n i j k sizeC sizeH sizeW sizeD
      input_sN input_sC input_sH input_sW input_sD
      output_sN output_sC output_sH output_sW output_sD
      weights_sC weights_sS dweights_sC dweights_sS padding_mode False"
    unfolding shift_forward_kernel_nhwdc_def
    by (rule arg_cong [where f = snd], rule arg_cong [where f = "\<lambda>b. for_loop 0 sizeC b ([0, 0, 0], out)"])
      (rule shift_forward_body_nhwdc_direct)
qed

theorem forward_direct_ignores_dweights_witness:
  "shift_forward_kernel_nchwd linear_interpolation (\<lambda>off. 10 * off + 10) (\<lambda>off. 0) (\<lambda>off. 1) (\<lambda>off. 5)
       0 0 1 0 0 2 1 1 2 2 1 0 0 2 2 1 0 0 1 1 1 1 Zeros False 1
   = shift_forward_kernel_nchwd linear_interpolation (\<lambda>off. 10 * off + 10) (\<lambda>off. 0) (\<lambda>off. 1) (\<lambda>off. 7)
       0 0 1 0 0 2 1 1 2 2 1 0 0 2 2 1 0 0 1 1 1 1 Zeros False (1::int)
   \<and> shift_forward_kernel_nhwdc linear_interpolation (\<lambda>off. 10 * off + 10) (\<lambda>off. 0) (\<lambda>off. 1) (\<lambda>off. 5)
       0 1 0 0 1 2 1 1 2 2 1 0 0 2 2 1 0 0 1 1 1 1 Zeros False 1
   = shift_forward_kernel_nhwdc linear_interpolation (\<lambda>off. 10 * off + 10) (\<lambda>off. 0) (\<lambda>off. 1) (\<lambda>off. 7)
       0 1 0 0 1 2 1 1 2 2 1 0 0 2 2 1 0 0 1 1 1 1 Zeros False (1::int)"
  using forward_direct_ignores_dweights [where I = "linear_interpolation :: int interpolation"
      and input = "\<lambda>off. 10 * off + 10" and out = "\<lambda>off. 0"
      and weights = "\<lambda>off. 1" and dweights = "\<lambda>off. 5" and dweights' = "\<lambda>off. 7"
      and n = 0 and c = 0 and i = 1 and j = 0 and k = 0 and sizeC = 1
      and sizeH = 2 and sizeW = 1 and sizeD = 1
      and input_sN = 2 and input_sC = 2 and input_sH = 1 and input_sW = 0 and input_sD = 0
      and output_sN = 2 and output_sC = 2 and output_sH = 1 and output_sW = 0 and output_sD = 0
      and weights_sC = 1 and weights_sS = 1 and dweights_sC = 1 and dweights_sS = 1
      and padding_mode = Zeros]
  by simp

section \<open>The backward kernel\<close>










text \<open>
  The linear indices below \<^verbatim>\<open>sizeN*sizeC*sizeH*sizeW*sizeD\<close> and the coordinates of the
  tensor correspond one to one: every coordinate is visited by exactly one kernel call.
\<close>

lemma sdiv_smod_nonneg:
  fixes a b :: int
  assumes "0 \<le> a" and "0 < b"
  shows "a sdiv b = a div b" and "a smod b = a mod b"
  using assms by (auto simp: signed_divide_int_def signed_modulo_int_def sgn_if)

lemma div_mod_digit:
  fixes q d r :: int
  assumes "0 \<le> r" and "r < d"
  shows "(q * d + r) div d = q" and "(q * d + r) mod d = r"
  using assms by simp_all

lemma decode_index_linear_index:
  assumes "0 \<le> n" and "0 \<le> c" "c < sizeC" and "0 \<le> i" "i < sizeH"
    and "0 \<le> j" "j < sizeW" and "0 \<le> k" "k < sizeD"
  shows "decode_index (linear_index n c i j k sizeC sizeH sizeW sizeD) sizeC sizeH sizeW sizeD
    = (n, c, i, j, k)"
proof -
  let ?x = "linear_index n c i j k sizeC sizeH sizeW sizeD"
  let ?x1 = "((n * sizeC + c) * sizeH + i) * sizeW + j"
  let ?x2 = "(n * sizeC + c) * sizeH + i"
  let ?x3 = "n * sizeC + c"
  have pos: "0 < sizeC" "0 < sizeH" "0 < sizeW" "0 < sizeD"
    using assms by simp_all
  have x3: "0 \<le> ?x3" using assms pos by simp
  have x2: "0 \<le> ?x2" using x3 assms pos by simp
  have x1: "0 \<le> ?x1" using x2 assms pos by simp
  have x: "0 \<le> ?x" unfolding linear_index_def using x1 assms pos by simp
  have d1: "?x div sizeD = ?x1" and m1: "?x mod sizeD = k"
    unfolding linear_index_def using assms by (simp_all add: div_mod_digit)
  have d2: "?x div (sizeD * sizeW) = ?x2"
    using assms pos by (simp add: zdiv_zmult2_eq d1 div_mod_digit)
  have d3: "?x div (sizeD * sizeW * sizeH) = ?x3"
    using assms pos by (simp add: zdiv_zmult2_eq d1 div_mod_digit)
  have d4: "?x div (sizeD * sizeW * sizeH * sizeC) = n"
    using assms pos by (simp add: zdiv_zmult2_eq d1 div_mod_digit)
  have s1: "?x smod sizeD = k"
    using x pos m1 by (simp add: sdiv_smod_nonneg)
  have s2: "(?x sdiv sizeD) smod sizeW = j"
    using x x1 pos assms by (simp add: sdiv_smod_nonneg d1 div_mod_digit)
  have s3: "(?x sdiv (sizeD * sizeW)) smod sizeH = i"
    using x x2 pos assms by (simp add: sdiv_smod_nonneg d2 div_mod_digit)
  have s4: "(?x sdiv (sizeD * sizeW * sizeH)) smod sizeC = c"
    using x x3 pos assms by (simp add: sdiv_smod_nonneg d3 div_mod_digit)
  have s5: "?x sdiv (sizeD * sizeW * sizeH * sizeC) = n"
    using x pos by (simp add: sdiv_smod_nonneg d4)
  show ?thesis
    unfolding decode_index_def Let_def s1 s2 s3 s4 s5 ..
qed

lemma div_less_bound:
  fixes x b m :: int
  assumes "0 < b" and "x < m * b"
  shows "x div b < m"
proof -
  have "x = x div b * b + x mod b"
    by simp
  moreover have "0 \<le> x mod b"
    using assms(1) by simp
  ultimately have "x div b * b \<le> x"
    by linarith
  with assms(2) have "x div b * b < m * b"
    by simp
  with assms(1) show ?thesis
    by simp
qed

lemma linear_index_decode_index:
  assumes "0 \<le> index" and "index < sizeN * sizeC * sizeH * sizeW * sizeD"
    and "0 < sizeC" and "0 < sizeH" and "0 < sizeW" and "0 < sizeD"
  shows "(case decode_index index sizeC sizeH sizeW sizeD of
      (n, c, i, j, k) \<Rightarrow>
        linear_index n c i j k sizeC sizeH sizeW sizeD = index
        \<and> 0 \<le> n \<and> n < sizeN \<and> 0 \<le> c \<and> c < sizeC \<and> 0 \<le> i \<and> i < sizeH
        \<and> 0 \<le> j \<and> j < sizeW \<and> 0 \<le> k \<and> k < sizeD)"
proof -
  let ?x1 = "index div sizeD"
  let ?x2 = "?x1 div sizeW"
  let ?x3 = "?x2 div sizeH"
  have x1: "0 \<le> ?x1" using assms by (simp add: pos_imp_zdiv_nonneg_iff)
  have x2: "0 \<le> ?x2" using x1 assms by (simp add: pos_imp_zdiv_nonneg_iff)
  have x3: "0 \<le> ?x3" using x2 assms by (simp add: pos_imp_zdiv_nonneg_iff)
  have x4: "0 \<le> ?x3 div sizeC" using x3 assms by (simp add: pos_imp_zdiv_nonneg_iff)
  have d2: "index div (sizeD * sizeW) = ?x2"
    using assms by (simp add: zdiv_zmult2_eq)
  have d3: "index div (sizeD * sizeW * sizeH) = ?x3"
    using assms by (simp add: zdiv_zmult2_eq)
  have d4: "index div (sizeD * sizeW * sizeH * sizeC) = ?x3 div sizeC"
    using assms by (simp add: zdiv_zmult2_eq)
  have decode: "decode_index index sizeC sizeH sizeW sizeD
      = (?x3 div sizeC, ?x3 mod sizeC, ?x2 mod sizeH, ?x1 mod sizeW, index mod sizeD)"
    using assms x1 x2 x3
    by (simp add: decode_index_def Let_def sdiv_smod_nonneg d2 d3 d4)
  have "index < sizeN * (sizeD * sizeW * sizeH * sizeC)"
    using assms(2) by (simp add: ac_simps)
  then have "index div (sizeD * sizeW * sizeH * sizeC) < sizeN"
    using assms by (intro div_less_bound) simp_all
  then have n: "?x3 div sizeC < sizeN"
    by (simp add: d4)
  have "linear_index (?x3 div sizeC) (?x3 mod sizeC) (?x2 mod sizeH) (?x1 mod sizeW) (index mod sizeD)
      sizeC sizeH sizeW sizeD = index"
    by (simp add: linear_index_def)
  with n x4 assms show ?thesis
    by (simp add: decode)
qed



section \<open>The channel-last forward kernel\<close>

text \<open>
  The channel-last forward kernel is the channel-major kernel run for the channels
  \<open>0, \<dots>, sizeC - 1\<close> in turn, in direct mode and, in interpolating mode, unless the third
  extent is above 1 while the second is 1.
\<close>

lemma for_loop_upto: "for_loop c n body s = foldl (\<lambda>s c. body c s) s [c..n - 1]"
proof (induction c n body s rule: for_loop.induct)
  case (1 c n body s)
  show ?case
  proof (cases "c < n")
    case True
    then have "[c..n - 1] = c # [c + 1..n - 1]"
      by (simp add: upto_rec1)
    with True "1.IH" show ?thesis
      by (simp add: for_loop.simps [of c n])
  next
    case False
    then show ?thesis
      by (simp add: for_loop.simps [of c n])
  qed
qed

lemma get_shifted_value_channel:
  "get_shifted_value x sizeH sH y sizeW sW z sizeD sD c sC (ptr_add buffer base) fill pm
    = get_shifted_value x sizeH sH y sizeW sW z sizeD sD 0 0 (ptr_add buffer (base + c * sC)) fill pm"
  by (simp add: get_shifted_value_def Let_def ptr_add_def algebra_simps)

lemma get_shifted_values_channel:
  "get_shifted_values x sizeH sH y sizeW sW z sizeD sD c sC (ptr_add buffer base) fill pm ov
    = get_shifted_values x sizeH sH y sizeW sW z sizeD sD 0 0 (ptr_add buffer (base + c * sC)) fill pm ov"
  unfolding get_shifted_values_def
  by (simp only: get_shifted_value_channel [of _ _ _ _ _ _ _ _ _ c sC buffer base])

lemma shift_forward_body_nhwdc_step:
  assumes "shifts_cleared sizeW sizeD shifts" and "\<not> active \<or> sizeW > 1 \<or> sizeD \<le> 1"
  shows "snd (shift_forward_body_nhwdc I input weights dweights n i j k sizeH sizeW sizeD
        input_sN input_sC input_sH input_sW input_sD
        output_sN output_sC output_sH output_sW output_sD
        weights_sC weights_sS dweights_sC dweights_sS padding_mode active c (shifts, out))
      = shift_forward_kernel_nchwd I input out weights dweights n c i j k sizeH sizeW sizeD
        input_sN input_sC input_sH input_sW input_sD
        output_sN output_sC output_sH output_sW output_sD
        weights_sC weights_sS dweights_sC dweights_sS padding_mode active"
    and "shifts_cleared sizeW sizeD (fst (shift_forward_body_nhwdc I input weights dweights n i j k
        sizeH sizeW sizeD input_sN input_sC input_sH input_sW input_sD
        output_sN output_sC output_sH output_sW output_sD
        weights_sC weights_sS dweights_sC dweights_sS padding_mode active c (shifts, out)))"
proof -
  from assms(1) obtain s0 s1 s2 where shifts: "shifts = [s0, s1, s2]"
    by (auto simp: shifts_cleared_def length_Suc_conv eval_nat_numeral)
  have off: "n * output_sN + i * output_sH + j * output_sW + k * output_sD + c * output_sC
      = n * output_sN + c * output_sC + i * output_sH + j * output_sW + k * output_sD"
    by simp
  show "shifts_cleared sizeW sizeD (fst (shift_forward_body_nhwdc I input weights dweights n i j k
        sizeH sizeW sizeD input_sN input_sC input_sH input_sW input_sD
        output_sN output_sC output_sH output_sW output_sD
        weights_sC weights_sS dweights_sC dweights_sS padding_mode active c (shifts, out)))"
    using assms(1) by (auto simp: shift_forward_body_nhwdc_def Let_def shifts_cleared_def shifts)
  show "snd (shift_forward_body_nhwdc I input weights dweights n i j k sizeH sizeW sizeD
        input_sN input_sC input_sH input_sW input_sD
        output_sN output_sC output_sH output_sW output_sD
        weights_sC weights_sS dweights_sC dweights_sS padding_mode active c (shifts, out))
      = shift_forward_kernel_nchwd I input out weights dweights n c i j k sizeH sizeW sizeD
        input_sN input_sC input_sH input_sW input_sD
        output_sN output_sC output_sH output_sW output_sD
        weights_sC weights_sS dweights_sC dweights_sS padding_mode active"
    using assms
    by (cases "sizeW > 1"; cases "sizeD > 1"; cases active)
      (simp_all add: shift_forward_body_nhwdc_def shift_forward_kernel_nchwd_def Let_def
        shifts_cleared_def shifts off add.commute [of weights_sS] add.commute [of "2 * weights_sS"]
        add.commute [of dweights_sS] add.commute [of "2 * dweights_sS"]
        get_shifted_value_channel [of _ _ _ _ _ _ _ _ _ c input_sC input "n * input_sN"]
        get_shifted_values_channel [of _ _ _ _ _ _ _ _ _ c input_sC input "n * input_sN"]
        compute_interpolated_def)
qed

lemma shift_forward_loop_nhwdc:
  assumes "shifts_cleared sizeW sizeD shifts" and "\<not> active \<or> sizeW > 1 \<or> sizeD \<le> 1"
  shows "snd (foldl (\<lambda>s c. shift_forward_body_nhwdc I input weights dweights n i j k sizeH sizeW sizeD
        input_sN input_sC input_sH input_sW input_sD
        output_sN output_sC output_sH output_sW output_sD
        weights_sC weights_sS dweights_sC dweights_sS padding_mode active c s) (shifts, out) cs)
      = foldl (\<lambda>out c. shift_forward_kernel_nchwd I input out weights dweights n c i j k sizeH sizeW sizeD
        input_sN input_sC input_sH input_sW input_sD
        output_sN output_sC output_sH output_sW output_sD
        weights_sC weights_sS dweights_sC dweights_sS padding_mode active) out cs"
  using assms(1)
proof (induction cs arbitrary: shifts out)
  case Nil
  show ?case by simp
next
  case (Cons c cs)
  let ?st = "shift_forward_body_nhwdc I input weights dweights n i j k sizeH sizeW sizeD
        input_sN input_sC input_sH input_sW input_sD
        output_sN output_sC output_sH output_sW output_sD
        weights_sC weights_sS dweights_sC dweights_sS padding_mode active c (shifts, out)"
  note step = shift_forward_body_nhwdc_step [OF Cons.prems assms(2), of I input weights dweights n i j k
      sizeH input_sN input_sC input_sH input_sW input_sD output_sN output_sC output_sH output_sW
      output_sD weights_sC weights_sS dweights_sC dweights_sS padding_mode c out]
  have "?st = (fst ?st, snd ?st)"
    by simp
  then show ?case
    using Cons.IH [OF step(2), of "snd ?st"] step(1) by simp
qed

lemma shift_forward_kernel_nhwdc_channels:
  assumes "\<not> active \<or> sizeW > 1 \<or> sizeD \<le> 1"
  shows "shift_forward_kernel_nhwdc I input out weights dweights n i j k sizeC sizeH sizeW sizeD
        input_sN input_sC input_sH input_sW input_sD
        output_sN output_sC output_sH output_sW output_sD
        weights_sC weights_sS dweights_sC dweights_sS padding_mode active
      = foldl (\<lambda>out c. shift_forward_kernel_nchwd I input out weights dweights n c i j k sizeH sizeW sizeD
        input_sN input_sC input_sH input_sW input_sD
        output_sN output_sC output_sH output_sW output_sD
        weights_sC weights_sS dweights_sC dweights_sS padding_mode active) out [0..sizeC - 1]"
proof -
  have "shifts_cleared sizeW sizeD [0, 0, 0]"
    by (simp add: shifts_cleared_def)
  from shift_forward_loop_nhwdc [OF this assms] show ?thesis
    by (simp add: shift_forward_kernel_nhwdc_def for_loop_upto)
qed

section \<open>The channel-last backward kernel\<close>

lemma shift_backward_body_nhwdc_stray_store:
  assumes "length (st_shifts st) = 3" and "length (st_dshifts st) = 3"
  shows "st_faults (shift_backward_body_nhwdc I input_grad input weights dweights n i j k sizeH sizeW sizeD
        input_grad_sN input_grad_sC input_grad_sH input_grad_sW input_grad_sD
        input_sN input_sC input_sH input_sW input_sD
        output_grad_sN output_grad_sC output_grad_sH output_grad_sW output_grad_sD
        weights_sC weights_sS dweights_sC dweights_sS weights_grad_sC weights_grad_sS
        padding_mode active c st) = st_faults st @ [(Dshifts, 3)]"
    and "st_dshifts (shift_backward_body_nhwdc I input_grad input weights dweights n i j k sizeH sizeW sizeD
        input_grad_sN input_grad_sC input_grad_sH input_grad_sW input_grad_sD
        input_sN input_sC input_sH input_sW input_sD
        output_grad_sN output_grad_sC output_grad_sH output_grad_sW output_grad_sD
        weights_sC weights_sS dweights_sC dweights_sS weights_grad_sC weights_grad_sS
        padding_mode active c st) ! 0 = st_dshifts st ! 0"
  using assms
  by (simp_all add: shift_backward_body_nhwdc_def Let_def local_store_def)

text \<open>
  C9. The claim: in every channel iteration of \<^verbatim>\<open>shift_backward_kernel_nhwdc\<close> every index
  into \<^verbatim>\<open>shifts[3]\<close>, \<^verbatim>\<open>dshifts[3]\<close>, \<^verbatim>\<open>_vals_array[8]\<close> and \<^verbatim>\<open>_new_weights_grad[3]\<close> is
  below the array's length, and \<^verbatim>\<open>dshifts[0]\<close> holds the channel's fractional offset when
  it is read. The code stores the fractional offset of the first axis at \<^verbatim>\<open>dshifts[3]\<close>
  (the channel-major kernel stores it at \<^verbatim>\<open>dshifts[0]\<close>). On one channel with the
  fractional offset \<open>1/2\<close> the kernel makes the store at index 3 of the three-element
  array, and \<^verbatim>\<open>dshifts[0]\<close> is still \<open>0\<close> after the iteration; by
  \<open>shift_backward_body_nhwdc_stray_store\<close> this happens in every iteration.
\<close>

theorem shift_backward_kernel_nhwdc_stray_store:
  "st_faults (shift_backward_kernel_nhwdc linear_interpolation
       (\<lambda>off. 2 * real_of_int off + 2) (\<lambda>off. 10 * real_of_int off + 10) (\<lambda>off. 0) (\<lambda>off. 0) (\<lambda>off. 1 / 2) (\<lambda>off. 0)
       0 0 0 0 1 2 1 1  2 1 1 0 0  2 1 1 0 0  2 1 1 0 0  1 1 1 1 1 1 Zeros True)
     = [(Dshifts, 3)]
   \<and> st_dshifts (shift_backward_kernel_nhwdc linear_interpolation
       (\<lambda>off. 2 * real_of_int off + 2) (\<lambda>off. 10 * real_of_int off + 10) (\<lambda>off. 0) (\<lambda>off. 0) (\<lambda>off. 1 / 2) (\<lambda>off. 0)
       0 0 0 0 1 2 1 1  2 1 1 0 0  2 1 1 0 0  2 1 1 0 0  1 1 1 1 1 1 Zeros True)
     = [0, 0, 0 :: real]"
  by (simp add: shift_backward_kernel_nhwdc_def for_loop.simps shift_backward_body_nhwdc_def
      Let_def local_store_def)

text \<open>
  C4. The claim: for the same logical tensor content the channel-major and the
  channel-last kernels give identical results. They do not. Backward, one channel, two
  positions, upstream gradient \<open>(2, 4)\<close>, fractional offset \<open>1/2\<close>, interpolating mode: the
  channel-major kernel stores the input gradient \<open>3\<close> at position 0, the channel-last
  kernel stores \<open>2\<close>, because its \<^verbatim>\<open>dshifts[0]\<close> is never set. Forward, extents
  \<open>(1, 1, 2)\<close> with the fractional offset \<open>1/2\<close> on the second axis: the channel-major
  kernel takes the offset of an axis of extent 1 as \<open>0\<close> and stores \<open>8\<close>, the channel-last
  kernel passes the offset as it is and stores \<open>4\<close>.
\<close>

theorem layout_variants_diverge:
  "fst (shift_backward_kernel_nchwd linear_interpolation
       (\<lambda>off. 2 * real_of_int off + 2) (\<lambda>off. 10 * real_of_int off + 10) (\<lambda>off. 0) (\<lambda>off. 0) (\<lambda>off. 1 / 2) (\<lambda>off. 0)
       0 0 0 0 0 2 1 1  2 1 1 0 0  2 1 1 0 0  2 1 1 0 0  1 1 1 1 1 1 Zeros True) 0 = (3 :: real)
   \<and> st_output_grad (shift_backward_kernel_nhwdc linear_interpolation
       (\<lambda>off. 2 * real_of_int off + 2) (\<lambda>off. 10 * real_of_int off + 10) (\<lambda>off. 0) (\<lambda>off. 0) (\<lambda>off. 1 / 2) (\<lambda>off. 0)
       0 0 0 0 1 2 1 1  2 1 1 0 0  2 1 1 0 0  2 1 1 0 0  1 1 1 1 1 1 Zeros True) 0 = (2 :: real)
   \<and> shift_forward_kernel_nchwd linear_interpolation (\<lambda>off. 8 - 4 * real_of_int off) (\<lambda>off. 0) (\<lambda>off. 0)
       (\<lambda>off. if off = 1 then 1 / 2 else 0)
       0 0 0 0 0 1 1 2  2 1 2 2 1  2 1 2 2 1  3 1 3 1 Zeros True 0 = (8 :: real)
   \<and> shift_forward_kernel_nhwdc linear_interpolation (\<lambda>off. 8 - 4 * real_of_int off) (\<lambda>off. 0) (\<lambda>off. 0)
       (\<lambda>off. if off = 1 then 1 / 2 else 0)
       0 0 0 0 1 1 1 2  2 1 2 2 1  2 1 2 2 1  3 1 3 1 Zeros True 0 = (4 :: real)"
proof (intro conjI)
  show "fst (shift_backward_kernel_nchwd linear_interpolation
       (\<lambda>off. 2 * real_of_int off + 2) (\<lambda>off. 10 * real_of_int off + 10) (\<lambda>off. 0) (\<lambda>off. 0) (\<lambda>off. 1 / 2) (\<lambda>off. 0)
       0 0 0 0 0 2 1 1  2 1 1 0 0  2 1 1 0 0  2 1 1 0 0  1 1 1 1 1 1 Zeros True) 0 = (3 :: real)"
    by (simp add: shift_backward_kernel_nchwd_def Let_def get_shifted_values_def
        get_shifted_value_def infer_index_def ptr_add_def compute_interpolated_def
        linear_interpolation_def lerp_def)
  show "st_output_grad (shift_backward_kernel_nhwdc linear_interpolation
       (\<lambda>off. 2 * real_of_int off + 2) (\<lambda>off. 10 * real_of_int off + 10) (\<lambda>off. 0) (\<lambda>off. 0) (\<lambda>off. 1 / 2) (\<lambda>off. 0)
       0 0 0 0 1 2 1 1  2 1 1 0 0  2 1 1 0 0  2 1 1 0 0  1 1 1 1 1 1 Zeros True) 0 = (2 :: real)"
    by (simp add: shift_backward_kernel_nhwdc_def for_loop.simps
        shift_backward_body_nhwdc_def Let_def local_store_def get_shifted_values_def
        get_shifted_value_def infer_index_def ptr_add_def compute_interpolated_def
        linear_interpolation_def lerp_def)
  show "shift_forward_kernel_nchwd linear_interpolation (\<lambda>off. 8 - 4 * real_of_int off) (\<lambda>off. 0) (\<lambda>off. 0)
       (\<lambda>off. if off = 1 then 1 / 2 else 0)
       0 0 0 0 0 1 1 2  2 1 2 2 1  2 1 2 2 1  3 1 3 1 Zeros True 0 = (8 :: real)"
    by (simp add: shift_forward_kernel_nchwd_def Let_def get_shifted_values_def
        get_shifted_value_def infer_index_def ptr_add_def compute_interpolated_def
        linear_interpolation_def lerp_def)
  show "shift_forward_kernel_nhwdc linear_interpolation (\<lambda>off. 8 - 4 * real_of_int off) (\<lambda>off. 0) (\<lambda>off. 0)
       (\<lambda>off. if off = 1 then 1 / 2 else 0)
       0 0 0 0 1 1 1 2  2 1 2 2 1  2 1 2 2 1  3 1 3 1 Zeros True 0 = (4 :: real)"
    by (simp add: shift_forward_kernel_nhwdc_def for_loop.simps shift_forward_body_nhwdc_def
        Let_def get_shifted_values_def
        get_shifted_value_def infer_index_def ptr_add_def compute_interpolated_def
        linear_interpolation_def lerp_def)
qed

section \<open>Axes of extent 1\<close>





section \<open>The weight split\<close>







end
